theory Spec2Isabelle
  imports Complex_Main "HOL-Library.Log_Nat"
begin

section \<open>Values of the hub's JSON documents\<close>

text \<open>
  The facade keeps the hub's documents as the Python values that the JSON parser
  returns: \<open>None\<close>, booleans, numbers, strings, lists and dictionaries. A number
  is kept as its exact value (\<open>rat\<close>), which is an integer for a Python \<open>int\<close> and
  a binary fraction for a finite \<open>float\<close>: an \<open>int\<close> and a \<open>float\<close> of the same
  value are the same number, as they are for Python's \<open>==\<close> and for dictionary
  keys. A dictionary is an association list of distinct keys, read with \<open>map_of\<close>.
\<close>

datatype json =
    JNull
  | JBool bool
  | JNum rat
  | JStr string
  | JArr "json list"
  | JObj "(string \<times> json) list"

text \<open>The exceptions of the module, and the Python and transport exceptions it lets through.\<close>

datatype error =
    WiserNoDevicesFound
  | WiserNotFound
  | WiserNoRoomsFound
  | WiserNoHotWaterFound
  | WiserNoHeatingFound
  | WiserRESTException string
  | WiserHubDataNull
  | WiserHubAuthenticationException
  | WiserHubTimeoutException
  | ValueError
  | AttributeError
  | TypeError
  | KeyError
  | OverflowError
  | JSONDecodeError
  | RecursionError
  | RequestsTimeout
  | RequestsConnectionError

subsection \<open>Python operations on these values\<close>

definition dict_get :: "(string \<times> json) list \<Rightarrow> string \<Rightarrow> json" where
  \<comment> \<open>\<open>d.get(k)\<close> on a dictionary: \<open>None\<close> for a missing key.\<close>
  "dict_get d k = (case map_of d k of None \<Rightarrow> JNull | Some v \<Rightarrow> v)"

fun py_get :: "json \<Rightarrow> string \<Rightarrow> error + json" where
  \<comment> \<open>\<open>x.get(k)\<close>: only a dictionary has the method.\<close>
  "py_get (JObj d) k = Inr (dict_get d k)"
| "py_get v k = Inl AttributeError"

fun py_iter :: "json \<Rightarrow> error + json list" where
  \<comment> \<open>\<open>for x in v\<close>: lists, strings (their characters) and dictionaries (their keys).\<close>
  "py_iter (JArr xs) = Inr xs"
| "py_iter (JStr cs) = Inr (map (\<lambda>c. JStr [c]) cs)"
| "py_iter (JObj d) = Inr (map JStr (remdups (map fst d)))"
| "py_iter v = Inl TypeError"

fun py_number :: "json \<Rightarrow> error + rat" where
  \<comment> \<open>The operand of an arithmetic operator: a number, or a boolean read as 0 or 1.\<close>
  "py_number (JNum r) = Inr r"
| "py_number (JBool b) = Inr (of_bool b)"
| "py_number v = Inl TypeError"

definition py_eq :: "json \<Rightarrow> json \<Rightarrow> bool" where
  \<comment> \<open>Python's \<open>==\<close>: numbers and booleans compare by value; the rest structurally
      (exact on \<open>None\<close> and strings, the values the identity fields hold).\<close>
  "py_eq a b =
     (case (py_number a, py_number b) of
        (Inr x, Inr y) \<Rightarrow> x = y
      | (Inl _, Inl _) \<Rightarrow> a = b
      | _ \<Rightarrow> False)"

fun dict_key :: "json \<Rightarrow> error + json" where
  \<comment> \<open>A value used as dictionary key: lists and dictionaries are unhashable,
      \<open>True\<close> and \<open>False\<close> are the keys 1 and 0.\<close>
  "dict_key (JArr xs) = Inl TypeError"
| "dict_key (JObj d) = Inl TypeError"
| "dict_key (JBool b) = Inr (JNum (of_bool b))"
| "dict_key v = Inr v"

definition py_int :: "rat \<Rightarrow> int" where
  \<comment> \<open>\<open>int(x)\<close>: truncation towards zero.\<close>
  "py_int x = (if 0 \<le> x then \<lfloor>x\<rfloor> else \<lceil>x\<rceil>)"

definition py_round :: "rat \<Rightarrow> int" where
  \<comment> \<open>\<open>round(x)\<close>: to the nearest integer, a tie to the even one.\<close>
  "py_round x =
     (let f = \<lfloor>x\<rfloor>; d = x - of_int f
      in if d < 1 / 2 then f else if 1 / 2 < d then f + 1
         else if even f then f else f + 1)"

definition lower_char :: "char \<Rightarrow> char" where
  "lower_char c =
     (let n = (of_char c :: nat) in if 65 \<le> n \<and> n \<le> 90 then char_of (n + 32) else c)"

definition lower :: "string \<Rightarrow> string" where
  \<comment> \<open>\<open>s.lower()\<close> on ASCII text.\<close>
  "lower s = map lower_char s"

section \<open>Python numbers\<close>

text \<open>
  A temperature argument is a Python \<open>int\<close> or a finite \<open>float\<close>, given by its value.
  Arithmetic on \<open>int\<close> is exact. Arithmetic on \<open>float\<close> is that of binary64: the exact
  result is rounded to the nearest number of 53 significant bits (to the nearest
  multiple of 2 to the power -1074 among the subnormal numbers), a tie to the one whose
  last bit is even; a rounded result of magnitude 2 to the power 1024 or more is an
  overflow. The values \<open>inf\<close> and \<open>nan\<close> are not numbers of this model.
\<close>

datatype pynum = PInt int | PFloat rat

fun pyval :: "pynum \<Rightarrow> rat" where
  "pyval (PInt k) = of_int k"
| "pyval (PFloat x) = x"

definition exponent :: "rat \<Rightarrow> int" where
  \<comment> \<open>The \<open>e\<close> with \<open>2 powi e \<le> \<bar>x\<bar> < 2 powi (e + 1)\<close>, for \<open>x\<close> other than 0.\<close>
  "exponent x =
     (let (a, b) = quotient_of \<bar>x\<bar>; d = bitlen a - bitlen b
      in if 2 powi d \<le> \<bar>x\<bar> then d else d - 1)"

definition fl :: "rat \<Rightarrow> rat" where
  \<comment> \<open>The binary64 number nearest to \<open>x\<close>, the exponent unbounded above.\<close>
  "fl x =
     (if x = 0 then 0
      else (let u = 2 powi (max (exponent x - 52) (- 1074))
            in of_int (py_round (x / u)) * u))"

definition overflows :: "rat \<Rightarrow> bool" where
  \<comment> \<open>The rounded result is too large for a \<open>float\<close>.\<close>
  "overflows x = (2 ^ 1024 \<le> \<bar>x\<bar>)"


section \<open>Temperatures\<close>

definition TEMP_MINIMUM :: pynum where "TEMP_MINIMUM = PInt 5"
definition TEMP_MAXIMUM :: pynum where "TEMP_MAXIMUM = PInt 30"
definition TEMP_OFF :: pynum where "TEMP_OFF = PInt (- 20)"

fun toWiserTemp :: "pynum \<Rightarrow> error + int" where
  \<comment> \<open>\<open>temp = int(temp * 10)\<close>: the product is exact for an \<open>int\<close> and rounded for a
      \<open>float\<close>; \<open>int\<close> of an overflowed product raises.\<close>
  "toWiserTemp (PInt temp) = Inr (temp * 10)"
| "toWiserTemp (PFloat temp) =
     (let product = fl (temp * 10)
      in if overflows product then Inl OverflowError else Inr (py_int product))"


definition checkTempRange :: "pynum \<Rightarrow> bool" where
  "checkTempRange temp =
     (if pyval temp \<noteq> pyval TEMP_OFF
         \<and> (pyval temp < pyval TEMP_MINIMUM \<or> pyval temp > pyval TEMP_MAXIMUM)
      then False else True)"

section \<open>The hub as the facade sees it\<close>

text \<open>
  The transport is consumed as a capability: a request either times out, fails at
  connection level, or comes back as a response with a status code and a body. The
  hub answers the \<open>n\<close>-th request of a session as it likes, so the transport is a
  function of the request and of its position; the parser of JSON text is the second
  capability (\<open>None\<close>: the text does not parse).
\<close>

datatype url =
    HubURL string
  | NetworkURL string
  | RoomURL string json

definition WISERHUBURL :: "string \<Rightarrow> url" where
  \<comment> \<open>\<open>"http://{}/data/domain/"\<close>\<close>
  "WISERHUBURL ip = HubURL ip"

definition WISERNETWORKURL :: "string \<Rightarrow> url" where
  \<comment> \<open>\<open>"http://{}/data/network/"\<close>\<close>
  "WISERNETWORKURL ip = NetworkURL ip"

definition WISERSETROOMTEMP :: "string \<Rightarrow> json \<Rightarrow> url" where
  \<comment> \<open>\<open>"http://{}//data/domain/Room/{}"\<close>\<close>
  "WISERSETROOMTEMP ip roomId = RoomURL ip roomId"

definition WISERROOM :: "string \<Rightarrow> json \<Rightarrow> url" where
  \<comment> \<open>\<open>"http://{}//data/domain/Room/{}"\<close>, the same resource\<close>
  "WISERROOM ip roomId = RoomURL ip roomId"

datatype request =
    GET url "(string \<times> string) list"
  | PATCH url "(string \<times> string) list" json

datatype http_outcome =
    Timeout
  | ConnectionError
  | Response int string

record env =
  transport :: "nat \<Rightarrow> request \<Rightarrow> http_outcome"
  json_loads :: "string \<Rightarrow> json option"

text \<open>
  The attributes of a \<open>wiserHub\<close> object. \<open>refreshData\<close> assigns the attribute
  \<open>WiserNetworkData\<close>, which does not exist before (\<open>None\<close> here), and is another
  attribute than \<open>wiserNetworkData\<close>. \<open>requests_sent\<close> is not an attribute: it is the
  log of the requests handed to the transport, in order.
\<close>

record wiserHub =
  wiserHubData :: json
  wiserNetworkData :: json
  WiserNetworkData :: "json option"
  hubIP :: string
  hubSecret :: string
  headers :: "(string \<times> string) list"
  device2roomMap :: "json \<rightharpoonup> json"
  requests_sent :: "request list"

type_synonym 'a result = "(error + 'a) \<times> wiserHub"

definition send :: "env \<Rightarrow> request \<Rightarrow> wiserHub \<Rightarrow> http_outcome \<times> wiserHub" where
  "send e r s =
     (transport e (length (requests_sent s)) r, s\<lparr>requests_sent := requests_sent s @ [r]\<rparr>)"

definition raise_for_status :: "int \<Rightarrow> bool" where
  \<comment> \<open>The statuses for which \<open>resp.raise_for_status()\<close> raises \<open>HTTPError\<close>.\<close>
  "raise_for_status status = (400 \<le> status \<and> status < 600)"

fun status_code :: "json \<Rightarrow> error + int" where
  \<comment> \<open>\<open>v.status_code\<close> on a parsed document or \<open>None\<close>: there is no such attribute.\<close>
  "status_code v = Inl AttributeError"

definition strip_unprintable :: "string \<Rightarrow> string" where
  \<comment> \<open>\<open>re.sub(rb'[^\x20-\x7F]+', b'', content)\<close>\<close>
  "strip_unprintable bs = filter (\<lambda>c. 32 \<le> (of_char c :: nat) \<and> (of_char c :: nat) \<le> 127) bs"

section \<open>The device-to-room index\<close>

fun set_valves :: "json \<Rightarrow> json list \<Rightarrow> (json \<rightharpoonup> json) \<Rightarrow> (error + unit) \<times> (json \<rightharpoonup> json)" where
  \<comment> \<open>\<open>for valveId in smartValves: self.device2roomMap[valveId] = {...}\<close>\<close>
  "set_valves info [] m = (Inr (), m)"
| "set_valves info (valveId # rest) m =
     (case dict_key valveId of
        Inl x \<Rightarrow> (Inl x, m)
      | Inr k \<Rightarrow> set_valves info rest (m(k \<mapsto> info)))"

definition room_info :: "(string \<times> json) list \<Rightarrow> json" where
  \<comment> \<open>\<open>{"roomId": room.get("id"), "roomName": room.get("Name")}\<close>\<close>
  "room_info room = JObj [(''roomId'', dict_get room ''id''), (''roomName'', dict_get room ''Name'')]"

fun index_room :: "json \<Rightarrow> (json \<rightharpoonup> json) \<Rightarrow> (error + unit) \<times> (json \<rightharpoonup> json)" where
  \<comment> \<open>The body of \<open>for room in self.getRooms()\<close>.\<close>
  "index_room (JObj room) m =
     (let roomStatId = dict_get room ''RoomStatId'' in
      case (if roomStatId \<noteq> JNull
            then (case dict_key roomStatId of
                    Inl x \<Rightarrow> (Inl x, m)
                  | Inr k \<Rightarrow> (Inr (), m(k \<mapsto> room_info room)))
            else (Inr (), m)) of
        (Inl x, m1) \<Rightarrow> (Inl x, m1)
      | (Inr u, m1) \<Rightarrow>
          (let smartValves = dict_get room ''SmartValveIds'' in
           if smartValves \<noteq> JNull
           then (case py_iter smartValves of
                   Inl x \<Rightarrow> (Inl x, m1)
                 | Inr valves \<Rightarrow> set_valves (room_info room) valves m1)
           else (Inr (), m1)))"
| "index_room v m = (Inl AttributeError, m)"

fun index_rooms :: "json list \<Rightarrow> (json \<rightharpoonup> json) \<Rightarrow> (error + unit) \<times> (json \<rightharpoonup> json)" where
  "index_rooms [] m = (Inr (), m)"
| "index_rooms (room # rest) m =
     (case index_room room m of
        (Inl x, m1) \<Rightarrow> (Inl x, m1)
      | (Inr u, m1) \<Rightarrow> index_rooms rest m1)"

section \<open>Refreshing the cached document\<close>

text \<open>
  \<open>refreshData\<close> reads the rooms through \<open>getRooms\<close>, which calls \<open>checkHubData\<close>, which
  calls \<open>refreshData\<close> again when the document just parsed is \<open>None\<close>. The first argument
  bounds the depth of these calls; at depth zero Python raises \<open>RecursionError\<close>.
\<close>

definition fetch_network :: "env \<Rightarrow> wiserHub \<Rightarrow> json result" where
  \<comment> \<open>The second request of \<open>refreshData\<close>, its clean-up and parse, and the handlers
      of the \<open>try\<close> that apply to it.\<close>
  "fetch_network e s =
     (case send e (GET (WISERNETWORKURL (hubIP s)) (headers s)) s of
        (Timeout, s1) \<Rightarrow> (Inl WiserHubTimeoutException, s1)
      | (ConnectionError, s1) \<Rightarrow> (Inr (wiserHubData s1), s1)
      | (Response status responseContent, s1) \<Rightarrow>
          (case json_loads e (strip_unprintable responseContent) of
             None \<Rightarrow> (Inl JSONDecodeError, s1)
           | Some network \<Rightarrow>
               (let s2 = s1\<lparr>WiserNetworkData := Some network\<rparr>
                in (Inr (wiserHubData s2), s2))))"

fun refreshData :: "nat \<Rightarrow> env \<Rightarrow> wiserHub \<Rightarrow> json result"
  and checkHubData :: "nat \<Rightarrow> env \<Rightarrow> wiserHub \<Rightarrow> unit result"
  and getRooms :: "nat \<Rightarrow> env \<Rightarrow> wiserHub \<Rightarrow> json result"
where
  "refreshData 0 e s = (Inl RecursionError, s)"
| "refreshData (Suc n) e s =
     (case send e (GET (WISERHUBURL (hubIP s)) (headers s)) s of
        (Timeout, s1) \<Rightarrow> (Inl WiserHubTimeoutException, s1)
      | (ConnectionError, s1) \<Rightarrow> (Inr (wiserHubData s1), s1)
      | (Response status body, s1) \<Rightarrow>
          if raise_for_status status
          then (case status_code (wiserHubData s1) of
                  Inl x \<Rightarrow> (Inl x, s1)
                | Inr c \<Rightarrow>
                    if c = 401 then (Inl WiserHubAuthenticationException, s1)
                    else if c = 404 then (Inl (WiserRESTException ''Not Found.''), s1)
                    else (Inl (WiserRESTException ''Unknown Error.''), s1))
          else (case json_loads e body of
                  None \<Rightarrow> (Inl JSONDecodeError, s1)
                | Some doc \<Rightarrow>
                    (case getRooms n e (s1\<lparr>wiserHubData := doc\<rparr>) of
                       (Inl x, s2) \<Rightarrow> (Inl x, s2)
                     | (Inr rooms, s2) \<Rightarrow>
                         if rooms \<noteq> JNull
                         then (case getRooms n e s2 of
                                 (Inl x, s3) \<Rightarrow> (Inl x, s3)
                               | (Inr rooms', s3) \<Rightarrow>
                                   (case py_iter rooms' of
                                      Inl x \<Rightarrow> (Inl x, s3)
                                    | Inr rs \<Rightarrow>
                                        (case index_rooms rs (device2roomMap s3) of
                                           (Inl x, m) \<Rightarrow> (Inl x, s3\<lparr>device2roomMap := m\<rparr>)
                                         | (Inr u, m) \<Rightarrow>
                                             fetch_network e (s3\<lparr>device2roomMap := m\<rparr>))))
                         else fetch_network e s2)))"
| "checkHubData n e s =
     (if wiserHubData s = JNull
      then (case refreshData n e s of
              (Inl x, s1) \<Rightarrow> (Inl x, s1)
            | (Inr d, s1) \<Rightarrow>
                if wiserHubData s1 = JNull then (Inl WiserHubDataNull, s1) else (Inr (), s1))
      else (Inr (), s))"
| "getRooms n e s =
     (case checkHubData n e s of
        (Inl x, s1) \<Rightarrow> (Inl x, s1)
      | (Inr u, s1) \<Rightarrow>
          (case py_get (wiserHubData s1) ''Room'' of
             Inl x \<Rightarrow> (Inl x, s1)
           | Inr rooms \<Rightarrow> (Inr rooms, s1)))"

definition new_wiserHub :: "string \<Rightarrow> string \<Rightarrow> wiserHub" where
  \<comment> \<open>The assignments of \<open>__init__\<close> before its call of \<open>refreshData\<close>.\<close>
  "new_wiserHub ip secret =
     \<lparr>wiserHubData = JNull, wiserNetworkData = JNull, WiserNetworkData = None,
      hubIP = ip, hubSecret = secret,
      headers = [(''SECRET'', secret), (''Content-Type'', ''application/json;charset=UTF-8'')],
      device2roomMap = Map.empty, requests_sent = []\<rparr>"

definition init :: "nat \<Rightarrow> env \<Rightarrow> string \<Rightarrow> string \<Rightarrow> json result" where
  \<comment> \<open>\<open>__init__\<close>: the object exists for the caller only when the result is \<open>Inr\<close>.\<close>
  "init n e ip secret = refreshData n e (new_wiserHub ip secret)"

section \<open>Read accessors\<close>

definition getHubData :: "nat \<Rightarrow> env \<Rightarrow> wiserHub \<Rightarrow> json result" where
  "getHubData n e s =
     (case checkHubData n e s of
        (Inl x, s1) \<Rightarrow> (Inl x, s1)
      | (Inr u, s1) \<Rightarrow> (Inr (wiserHubData s1), s1))"

definition getWiserHubName :: "wiserHub \<Rightarrow> error + json" where
  "getWiserHubName s =
     (case py_get (wiserNetworkData s) ''Station'' of
        Inl x \<Rightarrow> Inl x
      | Inr station \<Rightarrow> py_get station ''MdnsHostname'')"

definition getMACAddress :: "wiserHub \<Rightarrow> error + json" where
  "getMACAddress s =
     (case py_get (wiserNetworkData s) ''Station'' of
        Inl x \<Rightarrow> Inl x
      | Inr station \<Rightarrow> py_get station ''MacAddress'')"

fun scan_id :: "json \<Rightarrow> json list \<Rightarrow> error + json option" where
  \<comment> \<open>\<open>for r in records: if r.get("id") == ident: return r\<close>; \<open>None\<close> when the loop ends.\<close>
  "scan_id ident [] = Inr None"
| "scan_id ident (r # rest) =
     (case py_get r ''id'' of
        Inl x \<Rightarrow> Inl x
      | Inr i \<Rightarrow> if py_eq i ident then Inr (Some r) else scan_id ident rest)"

definition getRoom :: "nat \<Rightarrow> env \<Rightarrow> json \<Rightarrow> wiserHub \<Rightarrow> json result" where
  "getRoom n e roomId s =
     (case checkHubData n e s of
        (Inl x, s1) \<Rightarrow> (Inl x, s1)
      | (Inr u, s1) \<Rightarrow>
          (case py_get (wiserHubData s1) ''Room'' of
             Inl x \<Rightarrow> (Inl x, s1)
           | Inr rooms \<Rightarrow>
               if rooms = JNull then (Inl WiserNoRoomsFound, s1)
               else (case py_iter rooms of
                       Inl x \<Rightarrow> (Inl x, s1)
                     | Inr rs \<Rightarrow>
                         (case scan_id roomId rs of
                            Inl x \<Rightarrow> (Inl x, s1)
                          | Inr (Some room) \<Rightarrow> (Inr room, s1)
                          | Inr None \<Rightarrow> (Inl WiserNotFound, s1)))))"

definition getDevice :: "nat \<Rightarrow> env \<Rightarrow> json \<Rightarrow> wiserHub \<Rightarrow> json result" where
  "getDevice n e deviceId s =
     (case checkHubData n e s of
        (Inl x, s1) \<Rightarrow> (Inl x, s1)
      | (Inr u, s1) \<Rightarrow>
          (case py_get (wiserHubData s1) ''Device'' of
             Inl x \<Rightarrow> (Inl x, s1)
           | Inr devices \<Rightarrow>
               if devices = JNull then (Inl WiserNoRoomsFound, s1)
               else (case py_iter devices of
                       Inl x \<Rightarrow> (Inl x, s1)
                     | Inr ds \<Rightarrow>
                         (case scan_id deviceId ds of
                            Inl x \<Rightarrow> (Inl x, s1)
                          | Inr (Some device) \<Rightarrow> (Inr device, s1)
                          | Inr None \<Rightarrow> (Inl WiserNotFound, s1)))))"

definition getSmartPlug :: "nat \<Rightarrow> env \<Rightarrow> json \<Rightarrow> wiserHub \<Rightarrow> json result" where
  "getSmartPlug n e smartPlugId s =
     (case checkHubData n e s of
        (Inl x, s1) \<Rightarrow> (Inl x, s1)
      | (Inr u, s1) \<Rightarrow>
          (case getHubData n e s1 of
             (Inl x, s2) \<Rightarrow> (Inl x, s2)
           | (Inr doc, s2) \<Rightarrow>
               (case py_get doc ''SmartPlug'' of
                  Inl x \<Rightarrow> (Inl x, s2)
                | Inr plugs \<Rightarrow>
                    if plugs \<noteq> JNull
                    then (case getHubData n e s2 of
                            (Inl x, s3) \<Rightarrow> (Inl x, s3)
                          | (Inr doc', s3) \<Rightarrow>
                              (case py_get doc' ''SmartPlug'' of
                                 Inl x \<Rightarrow> (Inl x, s3)
                               | Inr plugs' \<Rightarrow>
                                   (case py_iter plugs' of
                                      Inl x \<Rightarrow> (Inl x, s3)
                                    | Inr ps \<Rightarrow>
                                        (case scan_id smartPlugId ps of
                                           Inl x \<Rightarrow> (Inl x, s3)
                                         | Inr (Some plug) \<Rightarrow> (Inr plug, s3)
                                         | Inr None \<Rightarrow> (Inl WiserNotFound, s3)))))
                    else (Inl WiserNotFound, s2))))"




section \<open>Commands\<close>

definition patch :: "env \<Rightarrow> url \<Rightarrow> json \<Rightarrow> wiserHub \<Rightarrow> (error + int \<times> string) \<times> wiserHub" where
  \<comment> \<open>\<open>requests.patch(url, headers=self.headers, json=patchData, timeout=TIMEOUT)\<close>:
      the status and the text of the response; the transport's exceptions are not caught
      by the commands.\<close>
  "patch e u patchData s =
     (case send e (PATCH u (headers s) patchData) s of
        (Timeout, s1) \<Rightarrow> (Inl RequestsTimeout, s1)
      | (ConnectionError, s1) \<Rightarrow> (Inl RequestsConnectionError, s1)
      | (Response status text, s1) \<Rightarrow> (Inr (status, text), s1))"

definition setRoomTemperature :: "env \<Rightarrow> json \<Rightarrow> pynum \<Rightarrow> wiserHub \<Rightarrow> unit result" where
  "setRoomTemperature e roomId temperature s =
     (if \<not> checkTempRange temperature then (Inl ValueError, s)
      else
        (case toWiserTemp temperature of
           Inl x \<Rightarrow> (Inl x, s)
         | Inr setPoint \<Rightarrow>
             (let patchData =
                    JObj [(''RequestOverride'',
                           JObj [(''Type'', JStr ''Manual''),
                                 (''SetPoint'', JNum (of_int setPoint))])]
              in case patch e (WISERSETROOMTEMP (hubIP s) roomId) patchData s of
                   (Inl x, s1) \<Rightarrow> (Inl x, s1)
                 | (Inr (status, text), s1) \<Rightarrow>
                     if status \<noteq> 200
                     then (Inl (WiserRESTException
                                  (''Error setting temperature, error '' @ text @ '' '')), s1)
                     else (Inr (), s1))))"


definition cancelBoostPostData :: json where
  "cancelBoostPostData =
     JObj [(''RequestOverride'',
            JObj [(''Type'', JStr ''None''), (''DurationMinutes'', JNum 0),
                  (''SetPoint'', JNum 0), (''Originator'', JStr ''App'')])]"


section \<open>The index that the specification describes\<close>

definition key_set :: "json list \<Rightarrow> json set" where
  \<comment> \<open>The dictionary keys that a list of values gives.\<close>
  "key_set vs = {k. \<exists>v \<in> set vs. dict_key v = Inr k}"

fun room_devices :: "json \<Rightarrow> json list" where
  \<comment> \<open>The specification's words: the device ids that appear in a room's
      \<open>RoomStatId\<close> or \<open>SmartValveIds\<close>.\<close>
  "room_devices (JObj room) =
     (if dict_get room ''RoomStatId'' \<noteq> JNull then [dict_get room ''RoomStatId''] else []) @
     (case py_iter (dict_get room ''SmartValveIds'') of Inl x \<Rightarrow> [] | Inr valves \<Rightarrow> valves)"
| "room_devices v = []"

definition lists_device :: "json \<Rightarrow> json \<Rightarrow> bool" where
  \<comment> \<open>The room lists the device of key \<open>k\<close>.\<close>
  "lists_device k room = (k \<in> key_set (room_devices room))"

fun spec_entry :: "json \<Rightarrow> json" where
  \<comment> \<open>The specification's words: a device maps to its room's \<open>{id, Name}\<close>.\<close>
  "spec_entry (JObj room) =
     JObj [(''roomId'', dict_get room ''id''), (''roomName'', dict_get room ''Name'')]"
| "spec_entry v = JNull"

definition document_rooms :: "json \<Rightarrow> json list" where
  \<comment> \<open>The records of the \<open>Room\<close> section, in the order of the document.\<close>
  "document_rooms doc =
     (case py_get doc ''Room'' of
        Inl x \<Rightarrow> []
      | Inr rooms \<Rightarrow> (case py_iter rooms of Inl x \<Rightarrow> [] | Inr rs \<Rightarrow> rs))"

definition spec_index :: "(json \<rightharpoonup> json) \<Rightarrow> json list \<Rightarrow> (json \<rightharpoonup> json)" where
  \<comment> \<open>A device listed by some room maps to the entry of the last room that lists it;
      any other key keeps what it had.\<close>
  "spec_index old rs k =
     (case filter (lists_device k) rs of
        [] \<Rightarrow> old k
      | r # owners \<Rightarrow> Some (spec_entry (last (r # owners))))"

definition device_ids :: "json \<Rightarrow> json set" where
  \<comment> \<open>The device ids of all the rooms of a document.\<close>
  "device_ids doc = key_set (concat (map room_devices (document_rooms doc)))"

section \<open>The requests of a manual override\<close>

definition ok200 :: "http_outcome \<Rightarrow> bool" where
  \<comment> \<open>The request came back, with \<open>response.status_code == 200\<close>.\<close>
  "ok200 r = (case r of Response status text \<Rightarrow> status = 200 | _ \<Rightarrow> False)"

definition manual_patchData :: "int \<Rightarrow> json" where
  "manual_patchData setPoint =
     JObj [(''Mode'', JStr ''Manual''),
           (''RequestOverride'',
            JObj [(''Type'', JStr ''Manual''), (''SetPoint'', JNum (of_int setPoint))])]"

definition manual_requests :: "env \<Rightarrow> wiserHub \<Rightarrow> json \<Rightarrow> int \<Rightarrow> request list" where
  \<comment> \<open>The log after a manual override of set-point \<open>setPoint\<close> was asked for in state
      \<open>s\<close>: the cancellation, then the override when the cancellation came back with 200.\<close>
  "manual_requests e s roomId setPoint =
     requests_sent s @
     PATCH (RoomURL (hubIP s) roomId) (headers s) cancelBoostPostData #
     (if ok200 (transport e (length (requests_sent s))
                  (PATCH (RoomURL (hubIP s) roomId) (headers s) cancelBoostPostData))
      then [PATCH (RoomURL (hubIP s) roomId) (headers s) (manual_patchData setPoint)]
      else [])"

section \<open>Sequences of refreshes\<close>

fun refreshes :: "nat \<Rightarrow> nat \<Rightarrow> env \<Rightarrow> wiserHub \<Rightarrow> wiserHub" where
  \<comment> \<open>The object after \<open>k\<close> calls of \<open>refreshData\<close> in a row, whatever each of them
      returns or raises.\<close>
  "refreshes 0 n e s = s"
| "refreshes (Suc k) n e s = refreshes k n e (snd (refreshData n e s))"

section \<open>The specification's encoding\<close>

fun spec_encode :: "pynum \<Rightarrow> error + int" where
  \<comment> \<open>The specification's words: \<open>encoded = round(celsius * 10)\<close>, on the same
      product.\<close>
  "spec_encode (PInt celsius) = Inr (celsius * 10)"
| "spec_encode (PFloat celsius) =
     (let product = fl (celsius * 10)
      in if overflows product then Inl OverflowError else Inr (py_round product))"

section \<open>Example hubs\<close>

definition kitchen_doc :: "rat \<Rightarrow> json" where
  \<comment> \<open>A hub document with one room, whose thermostat is the device \<open>stat\<close>.\<close>
  "kitchen_doc stat =
     JObj [(''Room'', JArr [JObj [(''id'', JNum 1), (''Name'', JStr ''Kitchen''),
                                  (''RoomStatId'', JNum stat),
                                  (''ScheduledSetPoint'', JNum 30)]]),
           (''Device'', JArr [JObj [(''id'', JNum stat)]]),
           (''HeatingChannel'',
            JArr [JObj [(''id'', JNum 1), (''HeatingRelayState'', JStr ''Off'')],
                  JObj [(''id'', JNum 2), (''HeatingRelayState'', JStr ''On'')]])]"

definition network_doc :: json where
  "network_doc =
     JObj [(''Station'', JObj [(''MdnsHostname'', JStr ''WiserHeat''),
                               (''MacAddress'', JStr ''AA:BB'')])]"

definition example_loads :: "string \<Rightarrow> json option" where
  "example_loads b =
     (if b = ''first'' then Some (kitchen_doc 7)
      else if b = ''second'' then Some (kitchen_doc 8)
      else if b = ''empty'' then Some (JObj [(''Room'', JArr [])])
      else if b = ''network'' then Some network_doc
      else None)"

definition hub_changing :: env where
  \<comment> \<open>Answers every request with 200; the thermostat of the room is device 7 in the
      document of the first refresh and device 8 afterwards.\<close>
  "hub_changing =
     \<lparr>transport = (\<lambda>n r. case r of
                            GET (HubURL ip) h \<Rightarrow> Response 200 (if n = 0 then ''first'' else ''second'')
                          | GET u h \<Rightarrow> Response 200 ''network''
                          | PATCH u h b \<Rightarrow> Response 200 ''OK''),
      json_loads = example_loads\<rparr>"

definition hub_then_down :: env where
  \<comment> \<open>Answers the two requests of the first refresh, then fails at connection level.\<close>
  "hub_then_down =
     \<lparr>transport = (\<lambda>n r. if n = 0 then Response 200 ''first''
                          else if n = 1 then Response 200 ''network''
                          else ConnectionError),
      json_loads = example_loads\<rparr>"


definition hub_status :: "int \<Rightarrow> env" where
  \<comment> \<open>Answers every request with the given status.\<close>
  "hub_status status =
     \<lparr>transport = (\<lambda>n r. Response status ''error''), json_loads = example_loads\<rparr>"

definition hub_empty :: env where
  \<comment> \<open>A hub whose document has an empty \<open>Room\<close> section.\<close>
  "hub_empty =
     \<lparr>transport = (\<lambda>n r. case r of
                            GET (HubURL ip) h \<Rightarrow> Response 200 ''empty''
                          | GET u h \<Rightarrow> Response 200 ''network''
                          | PATCH u h b \<Rightarrow> Response 200 ''OK''),
      json_loads = example_loads\<rparr>"

definition kitchen_hub :: wiserHub where
  \<comment> \<open>The object that the constructor leaves after its refresh from \<open>hub_changing\<close>.\<close>
  "kitchen_hub = snd (init (Suc 0) hub_changing ''hub'' ''secret'')"


definition empty_hub :: wiserHub where
  "empty_hub = snd (init (Suc 0) hub_empty ''hub'' ''secret'')"

definition rooms_doc :: json where
  \<comment> \<open>A hub document with three rooms; valve 9 is listed by the first two.\<close>
  "rooms_doc =
     JObj [(''Room'',
            JArr [JObj [(''id'', JNum 1), (''Name'', JStr ''Kitchen''),
                        (''RoomStatId'', JNum 7), (''SmartValveIds'', JArr [JNum 9]),
                        (''ScheduledSetPoint'', JNum 210)],
                  JObj [(''id'', JNum 2), (''Name'', JStr ''Hall''),
                        (''SmartValveIds'', JArr [JNum 9, JNum 10]),
                        (''ScheduledSetPoint'', JNum 30)],
                  JObj [(''id'', JNum 3), (''Name'', JStr ''Cellar''),
                        (''ScheduledSetPoint'', JNum 9007199254740993)]])]"

definition hub_rooms :: env where
  \<comment> \<open>Answers every request with 200; its document is \<open>rooms_doc\<close>.\<close>
  "hub_rooms =
     \<lparr>transport = (\<lambda>n r. case r of
                            GET (HubURL ip) h \<Rightarrow> Response 200 ''rooms''
                          | GET u h \<Rightarrow> Response 200 ''network''
                          | PATCH u h b \<Rightarrow> Response 200 ''OK''),
      json_loads = (\<lambda>b. if b = ''rooms'' then Some rooms_doc else example_loads b)\<rparr>"

definition rooms_hub :: wiserHub where
  \<comment> \<open>The object of \<open>kitchen_hub\<close> after a refresh from \<open>hub_rooms\<close>.\<close>
  "rooms_hub = snd (refreshData (Suc 0) hub_rooms kitchen_hub)"

section \<open>Evaluation of the examples\<close>

lemmas eval_defs =
  send_def fetch_network_def init_def new_wiserHub_def WISERHUBURL_def WISERNETWORKURL_def
  WISERROOM_def WISERSETROOMTEMP_def raise_for_status_def dict_get_def room_info_def
  strip_unprintable_def Let_def kitchen_doc_def example_loads_def network_doc_def
  lower_def lower_char_def char_of_eq_iff ok200_def patch_def cancelBoostPostData_def
  TEMP_MINIMUM_def TEMP_MAXIMUM_def TEMP_OFF_def

lemma kitchen_hub_eq:
  "kitchen_hub =
     \<lparr>wiserHubData = kitchen_doc 7, wiserNetworkData = JNull, WiserNetworkData = Some network_doc,
      hubIP = ''hub'', hubSecret = ''secret'',
      headers = [(''SECRET'', ''secret''), (''Content-Type'', ''application/json;charset=UTF-8'')],
      device2roomMap = [JNum 7 \<mapsto> JObj [(''roomId'', JNum 1), (''roomName'', JStr ''Kitchen'')]],
      requests_sent =
        [GET (HubURL ''hub'')
           [(''SECRET'', ''secret''), (''Content-Type'', ''application/json;charset=UTF-8'')],
         GET (NetworkURL ''hub'')
           [(''SECRET'', ''secret''), (''Content-Type'', ''application/json;charset=UTF-8'')]]\<rparr>"
  by (simp add: kitchen_hub_def hub_changing_def eval_defs)

section \<open>Rounding\<close>

lemma py_round_near: "\<bar>of_int (py_round x) - x\<bar> \<le> 1 / 2"
proof -
  have "of_int \<lfloor>x\<rfloor> \<le> x" "x < of_int \<lfloor>x\<rfloor> + 1" by linarith+
  then show ?thesis
    unfolding py_round_def Let_def by (auto simp: abs_le_iff)
qed

lemma py_round_of_int: "py_round (of_int k) = k"
  by (simp add: py_round_def Let_def)

lemma py_round_unique:
  assumes "\<bar>y - of_int k\<bar> < 1 / 2"
  shows "py_round y = k"
proof -
  have "\<bar>of_int (py_round y) - y\<bar> \<le> 1 / 2" by (rule py_round_near)
  then have "\<bar>(of_int (py_round y) :: rat) - of_int k\<bar> < 1" using assms by linarith
  then have "\<bar>(of_int (py_round y - k) :: rat)\<bar> < 1" by simp
  then have "\<bar>py_round y - k\<bar> < 1" 
    by (metis of_int_abs of_int_less_1_iff)
  then show ?thesis by simp
qed

lemma bitlen_lower: "0 < a \<Longrightarrow> (2::rat) powi (bitlen a - 1) \<le> of_int a"
proof -
  assume a: "0 < a"
  then have "1 \<le> bitlen a" by (auto simp: bitlen_alt_def)
  then have e: "(2::rat) powi (bitlen a - 1) = 2 ^ nat (bitlen a - 1)"
    by (simp add: power_int_def)
  have "2 ^ nat (bitlen a - 1) \<le> a" using bitlen_bounds [OF a] by simp
  then have "(of_int (2 ^ nat (bitlen a - 1)) :: rat) \<le> of_int a" by (simp only: of_int_le_iff)
  then show ?thesis unfolding e by simp
qed

lemma bitlen_upper: "0 < b \<Longrightarrow> (of_int b :: rat) < 2 powi (bitlen b)"
proof -
  assume b: "0 < b"
  have e: "(2::rat) powi (bitlen b) = 2 ^ nat (bitlen b)"
    using bitlen_nonneg [of b] by (simp add: power_int_def)
  have "b < 2 ^ nat (bitlen b)" using bitlen_bounds [OF b] by simp
  then have "(of_int b :: rat) < of_int (2 ^ nat (bitlen b))" by (simp only: of_int_less_iff)
  then show ?thesis unfolding e by simp
qed

lemma exponent_le:
  assumes "x \<noteq> 0"
  shows "2 powi (exponent x) \<le> \<bar>x\<bar>"
proof -
  obtain a b where q: "quotient_of \<bar>x\<bar> = (a, b)" by (cases "quotient_of \<bar>x\<bar>")
  have b: "0 < b" using q by (rule quotient_of_denom_pos)
  have v: "\<bar>x\<bar> = of_int a / of_int b" using q by (rule quotient_of_div)
  have "0 < \<bar>x\<bar>" using assms by simp
  then have a: "0 < a" using v b by (simp add: zero_less_divide_iff)
  let ?d = "bitlen a - bitlen b"
  have low: "(2::rat) powi (?d - 1) \<le> \<bar>x\<bar>"
  proof -
    have "(2::rat) powi (?d - 1) * of_int b \<le> 2 powi (?d - 1) * 2 powi (bitlen b)"
      using bitlen_upper [OF b] by (simp add: mult_left_mono)
    also have "\<dots> = 2 powi (bitlen a - 1)"
      by (simp add: power_int_add [symmetric])
    also have "\<dots> \<le> of_int a" by (rule bitlen_lower [OF a])
    finally have "(2::rat) powi (?d - 1) * of_int b \<le> of_int a" .
    then show ?thesis unfolding v using b by (simp add: pos_le_divide_eq)
  qed
  show ?thesis
    using low by (simp add: exponent_def q Let_def)
qed

lemma exponent_gt:
  assumes "x \<noteq> 0"
  shows "\<bar>x\<bar> < 2 powi (exponent x + 1)"
proof -
  obtain a b where q: "quotient_of \<bar>x\<bar> = (a, b)" by (cases "quotient_of \<bar>x\<bar>")
  have b: "0 < b" using q by (rule quotient_of_denom_pos)
  have v: "\<bar>x\<bar> = of_int a / of_int b" using q by (rule quotient_of_div)
  have "0 < \<bar>x\<bar>" using assms by simp
  then have a: "0 < a" using v b by (simp add: zero_less_divide_iff)
  let ?d = "bitlen a - bitlen b"
  have up: "\<bar>x\<bar> < (2::rat) powi (?d + 1)"
  proof -
    have "of_int a < (2::rat) powi (bitlen a)" by (rule bitlen_upper [OF a])
    also have "\<dots> = 2 powi (?d + 1) * 2 powi (bitlen b - 1)"
      by (simp add: power_int_add [symmetric])
    also have "\<dots> \<le> 2 powi (?d + 1) * of_int b"
      using bitlen_lower [OF b] by (simp add: mult_left_mono)
    finally have "of_int a < (2::rat) powi (?d + 1) * of_int b" .
    then show ?thesis unfolding v using b by (simp add: pos_divide_less_eq)
  qed
  show ?thesis
    using up by (auto simp: exponent_def q Let_def not_le)
qed



lemma powi_less_53: "(2::rat) powi e < 2 ^ 53 \<Longrightarrow> e < 53"
proof (rule ccontr)
  assume a: "(2::rat) powi e < 2 ^ 53" and "\<not> e < 53"
  then have "53 \<le> e" by simp
  then have "(2::rat) powi 53 \<le> 2 powi e"
    by (intro power_int_increasing) simp_all
  then show False using a by simp
qed

lemma powi_nonpos: "E \<le> 0 \<Longrightarrow> (2::rat) powi E = 1 / 2 ^ nat (- E)"
  by (simp add: power_int_def field_simps)


lemma fl_of_int:
  assumes "\<bar>k\<bar> < 2 ^ 53"
  shows "fl (of_int k) = of_int k"
proof (cases "k = 0")
  case True
  then show ?thesis by (simp add: fl_def)
next
  case False
  define x :: rat where "x = of_int k"
  have x0: "x \<noteq> 0" using False by (simp add: x_def)
  define E where "E = max (exponent x - 52) (- 1074)"
  have "\<bar>x\<bar> = of_int \<bar>k\<bar>" by (simp add: x_def)
  also have "\<dots> < of_int (2 ^ 53)" using assms by (simp only: of_int_less_iff)
  finally have xb: "\<bar>x\<bar> < 2 ^ 53" by simp
  have "2 powi (exponent x) \<le> \<bar>x\<bar>" by (rule exponent_le [OF x0])
  then have "(2::rat) powi (exponent x) < 2 ^ 53" using xb by simp
  then have "exponent x < 53" by (rule powi_less_53)
  then have E0: "E \<le> 0" by (simp add: E_def)
  have p: "(2::rat) powi E = 1 / 2 ^ nat (- E)" by (rule powi_nonpos [OF E0])
  have "x / 2 powi E = of_int (k * 2 ^ nat (- E))"
    by (simp add: p x_def)
  then have "py_round (x / 2 powi E) = k * 2 ^ nat (- E)"
    by (simp only: py_round_of_int)
  then have "fl x = of_int (k * 2 ^ nat (- E)) * 2 powi E"
    using x0 by (simp add: fl_def Let_def E_def)
  also have "\<dots> = x"
    by (simp add: p x_def)
  finally show ?thesis by (simp add: x_def)
qed


lemma py_int_of_int: "py_int (of_int k) = k"
  by (simp add: py_int_def)

lemma py_int_near: "\<bar>x - of_int (py_int x)\<bar> < 1"
  unfolding py_int_def by (simp; linarith)

lemma py_int_towards_zero: "\<bar>of_int (py_int x) :: rat\<bar> \<le> \<bar>x\<bar>"
  unfolding py_int_def by auto





section \<open>Temperature validation\<close>

text \<open>
  Claim C9. For every temperature outside [5, 30] other than -20,
  \<open>setRoomTemperature\<close> fails with the invalid-argument error (\<open>ValueError\<close>)
  and hands no request to the transport: the state, with its log of requests, is
  unchanged.
\<close>

theorem setRoomTemperature_out_of_range:
  assumes "pyval temperature < 5 \<or> 30 < pyval temperature" and "pyval temperature \<noteq> - 20"
  shows "setRoomTemperature e roomId temperature s = (Inl ValueError, s)
         \<and> requests_sent (snd (setRoomTemperature e roomId temperature s)) = requests_sent s"
  using assms
  by (auto simp: setRoomTemperature_def checkTempRange_def TEMP_OFF_def TEMP_MINIMUM_def
      TEMP_MAXIMUM_def)

theorem setRoomTemperature_out_of_range_witness:
  "(pyval (PInt 31) < 5 \<or> 30 < pyval (PInt 31)) \<and> pyval (PInt 31) \<noteq> - 20
   \<and> setRoomTemperature hub_changing (JNum 1) (PInt 31) (new_wiserHub ''hub'' ''secret'')
       = (Inl ValueError, new_wiserHub ''hub'' ''secret'')
   \<and> (pyval (PFloat (9 / 2)) < 5 \<or> 30 < pyval (PFloat (9 / 2))) \<and> pyval (PFloat (9 / 2)) \<noteq> - 20
   \<and> setRoomTemperature hub_changing (JNum 1) (PFloat (9 / 2)) kitchen_hub
       = (Inl ValueError, kitchen_hub)"
proof -
  have h1: "pyval (PInt 31) < 5 \<or> 30 < pyval (PInt 31)" by simp
  have h2: "pyval (PInt 31) \<noteq> - 20" by simp
  have g1: "pyval (PFloat (9 / 2)) < 5 \<or> 30 < pyval (PFloat (9 / 2))" by simp
  have g2: "pyval (PFloat (9 / 2)) \<noteq> - 20" by simp
  show ?thesis
    using h1 h2 g1 g2
      setRoomTemperature_out_of_range [OF h1 h2, of hub_changing "JNum 1"
        "new_wiserHub ''hub'' ''secret''"]
      setRoomTemperature_out_of_range [OF g1 g2, of hub_changing "JNum 1" kitchen_hub]
    by simp
qed

section \<open>Room modes\<close>









section \<open>Failures of a refresh\<close>

lemma refreshData_ConnectionError:
  assumes "transport e (length (requests_sent s)) (GET (HubURL (hubIP s)) (headers s)) = ConnectionError"
  shows "refreshData (Suc n) e s =
    (Inr (wiserHubData s), s\<lparr>requests_sent := requests_sent s @ [GET (HubURL (hubIP s)) (headers s)]\<rparr>)"
  using assms by (simp add: send_def WISERHUBURL_def)

lemma refreshData_HTTPError:
  assumes "transport e (length (requests_sent s)) (GET (HubURL (hubIP s)) (headers s)) = Response status body"
    and "400 \<le> status" "status < 600"
  shows "fst (refreshData (Suc n) e s) = Inl AttributeError"
  using assms by (simp add: send_def WISERHUBURL_def raise_for_status_def)

lemma getHubData_cached:
  "wiserHubData s \<noteq> JNull \<Longrightarrow> getHubData n e s = (Inr (wiserHubData s), s)"
  by (simp add: getHubData_def)

text \<open>
  Claim C1, as the specification states it: a refresh in which the transport fails at
  connection level signals the failure to the caller. The handler of
  \<open>requests.ConnectionError\<close> only logs: once the hub stops answering, the refresh of
  an object that holds a document returns that document as an ordinary result.
\<close>

theorem refreshData_connection_failure_counterexample:
  "snd (init (Suc 0) hub_then_down ''hub'' ''secret'') = kitchen_hub
   \<and> fst (refreshData (Suc 0) hub_then_down kitchen_hub) = Inr (kitchen_doc 7)"
  by (simp add: kitchen_hub_def hub_changing_def hub_then_down_def eval_defs)

text \<open>
  Claim C1, amended. When the request for the hub document fails at connection level,
  \<open>refreshData\<close> raises nothing: it returns the cached document, which stays in place
  with the index, and which \<open>getHubData\<close> still returns afterwards when there is one.
\<close>

theorem refreshData_connection_failure:
  assumes "transport e (length (requests_sent s)) (GET (HubURL (hubIP s)) (headers s)) = ConnectionError"
  shows "fst (refreshData (Suc n) e s) = Inr (wiserHubData s)
     \<and> wiserHubData (snd (refreshData (Suc n) e s)) = wiserHubData s
     \<and> device2roomMap (snd (refreshData (Suc n) e s)) = device2roomMap s
     \<and> (wiserHubData s \<noteq> JNull \<longrightarrow>
          fst (getHubData m e (snd (refreshData (Suc n) e s))) = Inr (wiserHubData s))"
  by (simp add: refreshData_ConnectionError [OF assms] getHubData_cached del: refreshData.simps)

theorem refreshData_connection_failure_witness:
  "transport hub_then_down (length (requests_sent kitchen_hub))
     (GET (HubURL (hubIP kitchen_hub)) (headers kitchen_hub)) = ConnectionError
   \<and> fst (refreshData (Suc 0) hub_then_down kitchen_hub) = Inr (kitchen_doc 7)
   \<and> wiserHubData (snd (refreshData (Suc 0) hub_then_down kitchen_hub)) = kitchen_doc 7
   \<and> kitchen_doc 7 \<noteq> JNull
   \<and> fst (getHubData (Suc 0) hub_then_down (snd (refreshData (Suc 0) hub_then_down kitchen_hub)))
       = Inr (kitchen_doc 7)"
proof -
  have h: "transport hub_then_down (length (requests_sent kitchen_hub))
     (GET (HubURL (hubIP kitchen_hub)) (headers kitchen_hub)) = ConnectionError"
    by (simp add: kitchen_hub_eq hub_then_down_def)
  have d: "wiserHubData kitchen_hub = kitchen_doc 7" by (simp add: kitchen_hub_eq)
  have nn: "kitchen_doc 7 \<noteq> JNull" by (simp add: kitchen_doc_def)
  show ?thesis
    using h nn refreshData_connection_failure [OF h, of 0 "Suc 0"]
    by (simp add: d del: refreshData.simps)
qed

text \<open>
  Claim C2: a status 401 raises the authentication error, 404 and the other error
  statuses the REST error. The handler of \<open>HTTPError\<close> reads \<open>status_code\<close> from
  \<open>self.wiserHubData\<close>, the cached document or \<open>None\<close>, instead of the response, so
  for 401, 404 and 500 alike what the caller gets is \<open>AttributeError\<close>, with or
  without a cached document.
\<close>

theorem refreshData_http_status:
  "fst (refreshData (Suc 0) (hub_status 401) (new_wiserHub ''hub'' ''secret'')) = Inl AttributeError
   \<and> fst (refreshData (Suc 0) (hub_status 404) (new_wiserHub ''hub'' ''secret'')) = Inl AttributeError
   \<and> fst (refreshData (Suc 0) (hub_status 500) (new_wiserHub ''hub'' ''secret'')) = Inl AttributeError
   \<and> fst (refreshData (Suc 0) (hub_status 401) kitchen_hub) = Inl AttributeError"
  by (simp add: hub_status_def send_def WISERHUBURL_def raise_for_status_def)

section \<open>The heating relay\<close>








section \<open>Lookups by id\<close>

lemma scan_id_no_match:
  "\<forall>r\<in>set rs. \<exists>d. r = JObj d \<and> \<not> py_eq (dict_get d ''id'') ident \<Longrightarrow> scan_id ident rs = Inr None"
  by (induction rs) auto

text \<open>
  Claim C8, as the specification states it: a lookup by id fails with the error of its
  section when the section is absent or empty. \<open>getRoom\<close> tests the section against
  \<open>None\<close> only: on a document whose \<open>Room\<close> section is the empty list it fails with
  \<open>WiserNotFound\<close>.
\<close>

theorem getRoom_empty_counterexample:
  "wiserHubData empty_hub = JObj [(''Room'', JArr [])]
   \<and> fst (getRoom (Suc 0) hub_empty (JNum 1) empty_hub) = Inl WiserNotFound"
  by (simp add: empty_hub_def hub_empty_def getRoom_def eval_defs)

text \<open>
  Claim C8, amended. On a cached document, \<open>getRoom\<close> fails with
  \<open>WiserNoRoomsFound\<close> when the \<open>Room\<close> section is absent, and with
  \<open>WiserNotFound\<close> when the section is a list, empty or not, of records none of which
  has the requested id. \<open>getDevice\<close> fails with \<open>WiserNotFound\<close> when the \<open>Device\<close>
  section is such a list. \<open>getSmartPlug\<close> fails with \<open>WiserNotFound\<close> in both cases,
  the section absent or without the id.
\<close>

theorem by_id_absence:
  assumes "wiserHubData s = JObj doc"
  shows "(dict_get doc ''Room'' = JNull \<longrightarrow> getRoom n e ident s = (Inl WiserNoRoomsFound, s))
   \<and> (dict_get doc ''Room'' = JArr rs
        \<and> (\<forall>r\<in>set rs. \<exists>d. r = JObj d \<and> \<not> py_eq (dict_get d ''id'') ident)
      \<longrightarrow> getRoom n e ident s = (Inl WiserNotFound, s))
   \<and> (dict_get doc ''Device'' = JArr rs
        \<and> (\<forall>r\<in>set rs. \<exists>d. r = JObj d \<and> \<not> py_eq (dict_get d ''id'') ident)
      \<longrightarrow> getDevice n e ident s = (Inl WiserNotFound, s))
   \<and> (dict_get doc ''SmartPlug'' = JNull \<longrightarrow> getSmartPlug n e ident s = (Inl WiserNotFound, s))
   \<and> (dict_get doc ''SmartPlug'' = JArr rs
        \<and> (\<forall>r\<in>set rs. \<exists>d. r = JObj d \<and> \<not> py_eq (dict_get d ''id'') ident)
      \<longrightarrow> getSmartPlug n e ident s = (Inl WiserNotFound, s))"
  using assms scan_id_no_match [of rs ident]
  by (simp add: getRoom_def getDevice_def getSmartPlug_def getHubData_def)

theorem by_id_absence_witness:
  "wiserHubData kitchen_hub = kitchen_doc 7
   \<and> getSmartPlug 0 hub_changing (JNum 2) kitchen_hub = (Inl WiserNotFound, kitchen_hub)
   \<and> getRoom 0 hub_changing (JNum 2) kitchen_hub = (Inl WiserNotFound, kitchen_hub)
   \<and> getDevice 0 hub_changing (JNum 2) kitchen_hub = (Inl WiserNotFound, kitchen_hub)
   \<and> wiserHubData (kitchen_hub\<lparr>wiserHubData := JObj []\<rparr>) = JObj []
   \<and> getRoom 0 hub_changing (JNum 2) (kitchen_hub\<lparr>wiserHubData := JObj []\<rparr>)
       = (Inl WiserNoRoomsFound, kitchen_hub\<lparr>wiserHubData := JObj []\<rparr>)
   \<and> wiserHubData empty_hub = JObj [(''Room'', JArr [])]
   \<and> getRoom 0 hub_empty (JNum 1) empty_hub = (Inl WiserNotFound, empty_hub)"
proof -
  let ?room = "JObj [(''id'', JNum 1), (''Name'', JStr ''Kitchen''), (''RoomStatId'', JNum 7),
                     (''ScheduledSetPoint'', JNum 30)]"
  let ?doc = "[(''Room'', JArr [?room]),
           (''Device'', JArr [JObj [(''id'', JNum 7)]]),
           (''HeatingChannel'',
            JArr [JObj [(''id'', JNum 1), (''HeatingRelayState'', JStr ''Off'')],
                  JObj [(''id'', JNum 2), (''HeatingRelayState'', JStr ''On'')]])]"
  have k1: "wiserHubData kitchen_hub = JObj ?doc" by (simp add: kitchen_hub_eq kitchen_doc_def)
  have r: "dict_get ?doc ''Room'' = JArr [?room]
           \<and> (\<forall>r\<in>set [?room]. \<exists>d. r = JObj d \<and> \<not> py_eq (dict_get d ''id'') (JNum 2))"
    by (simp add: dict_get_def py_eq_def)
  have d: "dict_get ?doc ''Device'' = JArr [JObj [(''id'', JNum 7)]]
           \<and> (\<forall>r\<in>set [JObj [(''id'', JNum 7)]]. \<exists>d. r = JObj d \<and> \<not> py_eq (dict_get d ''id'') (JNum 2))"
    by (simp add: dict_get_def py_eq_def)
  have p: "dict_get ?doc ''SmartPlug'' = JNull" by (simp add: dict_get_def)
  have e0: "wiserHubData (kitchen_hub\<lparr>wiserHubData := JObj []\<rparr>) = JObj []" by simp
  have e1: "dict_get [] ''Room'' = JNull" by (simp add: dict_get_def)
  have m0: "wiserHubData empty_hub = JObj [(''Room'', JArr [])]"
    by (simp add: empty_hub_def hub_empty_def eval_defs)
  have m1: "dict_get [(''Room'', JArr [])] ''Room'' = JArr []
            \<and> (\<forall>r\<in>set []. \<exists>d. r = JObj d \<and> \<not> py_eq (dict_get d ''id'') (JNum 1))"
    by (simp add: dict_get_def)
  show ?thesis
    using by_id_absence [OF k1, of 0 hub_changing "JNum 2" "[?room]"]
      by_id_absence [OF k1, of 0 hub_changing "JNum 2" "[JObj [(''id'', JNum 7)]]"]
      by_id_absence [OF e0, of 0 hub_changing "JNum 2" "[]"]
      by_id_absence [OF m0, of 0 hub_empty "JNum 1" "[]"]
      r d p e1 m1 k1 m0
    by (simp add: kitchen_doc_def)
qed

section \<open>The network document\<close>

lemma fetch_network_wiserNetworkData:
  "wiserNetworkData (snd (fetch_network e s)) = wiserNetworkData s"
  by (simp add: fetch_network_def send_def Let_def split: http_outcome.split option.split)

lemma refresh_wiserNetworkData:
  "wiserNetworkData (snd (refreshData n e s)) = wiserNetworkData s"
  "wiserNetworkData (snd (checkHubData n e s)) = wiserNetworkData s"
  "wiserNetworkData (snd (getRooms n e s)) = wiserNetworkData s"
proof (induction n e s and n e s and n e s rule: refreshData_checkHubData_getRooms.induct)
  case (1 e s)
  then show ?case by simp
next
  case (2 n e s)
  let ?s1 = "s\<lparr>requests_sent := requests_sent s @ [GET (WISERHUBURL (hubIP s)) (headers s)]\<rparr>"
  let ?t = "transport e (length (requests_sent s)) (GET (WISERHUBURL (hubIP s)) (headers s))"
  have snd_send: "send e (GET (WISERHUBURL (hubIP s)) (headers s)) s = (?t, ?s1)"
    by (simp add: send_def)
  show ?case
  proof (cases ?t)
    case Timeout
    then show ?thesis by (simp add: snd_send)
  next
    case ConnectionError
    then show ?thesis by (simp add: snd_send)
  next
    case (Response status body)
    show ?thesis
    proof (cases "raise_for_status status")
      case True
      then show ?thesis using Response by (simp add: snd_send)
    next
      case nr: False
      show ?thesis
      proof (cases "json_loads e body")
        case None
        then show ?thesis using Response nr by (simp add: snd_send)
      next
        case (Some doc)
        obtain r1 s2 where g1: "getRooms n e (?s1\<lparr>wiserHubData := doc\<rparr>) = (r1, s2)"
          by (cases "getRooms n e (?s1\<lparr>wiserHubData := doc\<rparr>)")
        have w2: "wiserNetworkData s2 = wiserNetworkData s"
          using "2.IH"(1) [OF snd_send [symmetric] Response nr Some] g1 by simp
        obtain r2 s3 where g2: "getRooms n e s2 = (r2, s3)"
          by (cases "getRooms n e s2")
        have w3: "wiserNetworkData s3 = wiserNetworkData s" if "r1 = Inr b" "b \<noteq> JNull" for b
          using "2.IH"(2) [OF snd_send [symmetric] Response nr Some g1 [symmetric] that] g2 w2
          by simp
        show ?thesis
          using Response nr Some g1 g2 w2 w3
          by (auto simp: snd_send fetch_network_wiserNetworkData
              split: sum.split prod.split simp del: getRooms.simps)
      qed
    qed
  qed
next
  case (3 n e s)
  then show ?case by (auto split: prod.split sum.split simp del: refreshData.simps)
next
  case (4 n e s)
  then show ?case by (auto split: prod.split sum.split simp del: checkHubData.simps)
qed


lemma refreshes_wiserNetworkData: "wiserNetworkData (refreshes k n e s) = wiserNetworkData s"
  by (induction k arbitrary: s) (simp_all add: refresh_wiserNetworkData(1) del: refreshData.simps)

lemma fetch_network_stores:
  assumes "transport e (length (requests_sent s)) (GET (NetworkURL (hubIP s)) (headers s))
           = Response status content"
    and "json_loads e (strip_unprintable content) = Some network"
  shows "WiserNetworkData (snd (fetch_network e s)) = Some network"
  using assms by (simp add: fetch_network_def send_def WISERNETWORKURL_def Let_def)

lemma refreshes_twice:
  "refreshes (Suc (Suc 0)) (Suc 0) hub_changing (new_wiserHub ''hub'' ''secret'')
   = snd (refreshData (Suc 0) hub_changing kitchen_hub)"
  by (simp add: kitchen_hub_def init_def del: refreshData.simps)

lemma refresh_kitchen_hub:
  "refreshData (Suc 0) hub_changing kitchen_hub =
    (Inr (kitchen_doc 8),
     kitchen_hub\<lparr>wiserHubData := kitchen_doc 8,
       device2roomMap := [JNum 7 \<mapsto> JObj [(''roomId'', JNum 1), (''roomName'', JStr ''Kitchen'')],
                          JNum 8 \<mapsto> JObj [(''roomId'', JNum 1), (''roomName'', JStr ''Kitchen'')]],
       requests_sent := requests_sent kitchen_hub @
         [GET (HubURL ''hub'') (headers kitchen_hub), GET (NetworkURL ''hub'') (headers kitchen_hub)]\<rparr>)"
  by (simp add: kitchen_hub_eq hub_changing_def eval_defs)

text \<open>
  Claim C10. \<open>refreshData\<close> stores the network document it fetches in the attribute
  \<open>WiserNetworkData\<close>; the constructor initialises, and \<open>getWiserHubName\<close> and
  \<open>getMACAddress\<close> read, the attribute \<open>wiserNetworkData\<close>. After any number of
  refreshes of a new object, against any hub, \<open>wiserNetworkData\<close> is still \<open>None\<close>,
  and both accessors fail on it with \<open>AttributeError\<close>.
\<close>

theorem wiserNetworkData_never_assigned:
  "wiserNetworkData (refreshes k n e (new_wiserHub ip secret)) = JNull
   \<and> getWiserHubName (refreshes k n e (new_wiserHub ip secret)) = Inl AttributeError
   \<and> getMACAddress (refreshes k n e (new_wiserHub ip secret)) = Inl AttributeError
   \<and> (transport e (length (requests_sent s)) (GET (NetworkURL (hubIP s)) (headers s))
         = Response status content
       \<and> json_loads e (strip_unprintable content) = Some network
      \<longrightarrow> WiserNetworkData (snd (fetch_network e s)) = Some network
          \<and> wiserNetworkData (snd (fetch_network e s)) = wiserNetworkData s)"
proof -
  have "wiserNetworkData (refreshes k n e (new_wiserHub ip secret)) = JNull"
    by (simp add: refreshes_wiserNetworkData new_wiserHub_def)
  then show ?thesis
    using fetch_network_stores [of e s status content network]
    by (simp add: getWiserHubName_def getMACAddress_def fetch_network_wiserNetworkData)
qed

theorem wiserNetworkData_never_assigned_witness:
  "WiserNetworkData (refreshes (Suc (Suc 0)) (Suc 0) hub_changing (new_wiserHub ''hub'' ''secret''))
     = Some network_doc
   \<and> wiserNetworkData (refreshes (Suc (Suc 0)) (Suc 0) hub_changing (new_wiserHub ''hub'' ''secret''))
     = JNull
   \<and> getWiserHubName (refreshes (Suc (Suc 0)) (Suc 0) hub_changing (new_wiserHub ''hub'' ''secret''))
     = Inl AttributeError
   \<and> getMACAddress (refreshes (Suc (Suc 0)) (Suc 0) hub_changing (new_wiserHub ''hub'' ''secret''))
     = Inl AttributeError
   \<and> transport hub_changing (length (requests_sent kitchen_hub))
        (GET (NetworkURL (hubIP kitchen_hub)) (headers kitchen_hub)) = Response 200 ''network''
   \<and> json_loads hub_changing (strip_unprintable ''network'') = Some network_doc
   \<and> WiserNetworkData (snd (fetch_network hub_changing kitchen_hub)) = Some network_doc"
proof -
  have a: "WiserNetworkData (refreshes (Suc (Suc 0)) (Suc 0) hub_changing (new_wiserHub ''hub'' ''secret''))
     = Some network_doc"
    unfolding refreshes_twice refresh_kitchen_hub by (simp add: kitchen_hub_eq)
  have b: "transport hub_changing (length (requests_sent kitchen_hub))
        (GET (NetworkURL (hubIP kitchen_hub)) (headers kitchen_hub)) = Response 200 ''network''"
    by (simp add: hub_changing_def)
  have c: "json_loads hub_changing (strip_unprintable ''network'') = Some network_doc"
    by (simp add: hub_changing_def example_loads_def strip_unprintable_def)
  show ?thesis
    using a b c
      wiserNetworkData_never_assigned [of "Suc (Suc 0)" "Suc 0" hub_changing "''hub''" "''secret''"
        kitchen_hub 200 "''network''" network_doc]
    by (simp del: refreshData.simps refreshes.simps)
qed

end
